theory Spec2Isabelle
  imports Main "HOL-Library.Word"
begin

section \<open>Constants (constants.ts)\<close>

type_synonym byte = "8 word"
type_synonym bytes = "byte list"

definition DEFAULT_EXPIRY_SECONDS :: int where
  "DEFAULT_EXPIRY_SECONDS = 72 * 60 * 60"

definition MAX_EXPIRY_SECONDS :: int where
  "MAX_EXPIRY_SECONDS = 366 * 24 * 60 * 60"

definition MAX_ATTEMPTS :: int where
  "MAX_ATTEMPTS = 10"

definition PBKDF2_ITERATIONS :: nat where
  "PBKDF2_ITERATIONS = 310000"

definition PBKDF2_SALT_LENGTH :: nat where
  "PBKDF2_SALT_LENGTH = 16"

definition EXCHANGE_ID_BYTES :: nat where
  "EXCHANGE_ID_BYTES = 32"

definition R2_PREFIX :: string where
  "R2_PREFIX = ''exchanges''"

definition KV_PREFIX :: string where
  "KV_PREFIX = ''exchange''"

definition MAX_PAYLOAD_SIZE :: nat where
  "MAX_PAYLOAD_SIZE = 5 * 1024 * 1024"

definition UNTRUSTED_EXPIRY_SECONDS :: int where
  "UNTRUSTED_EXPIRY_SECONDS = 60 * 60"

definition UNTRUSTED_MAX_PAYLOAD_SIZE :: nat where
  "UNTRUSTED_MAX_PAYLOAD_SIZE = 10 * 1024"

definition TRUST_GATEWAY_URL :: string where
  "TRUST_GATEWAY_URL = ''https://bind-pki.org''"

section \<open>Random source\<close>

text \<open>
  \<^verbatim>\<open>crypto.getRandomValues(new Uint8Array(n))\<close> fills a fresh array of \<open>n\<close> bytes.
  The random source is an infinite tape of bytes; a draw reads the next \<open>n\<close> cells and
  hands back the rest of the tape, so two draws of one request see different cells.
\<close>

type_synonym entropy = "nat \<Rightarrow> byte"

definition getRandomValues :: "nat \<Rightarrow> entropy \<Rightarrow> bytes \<times> entropy" where
  "getRandomValues n rng = (map rng [0..<n], \<lambda>i. rng (n + i))"

section \<open>Identifier generator (lib/crypto.ts)\<close>

text \<open>
  \<^verbatim>\<open>btoa\<close> is the platform's base64 encoder (RFC 4648, section 4, with padding). Its
  argument is a binary string: one character per byte. Three input characters give
  four output characters; a last group of one or two characters is padded with \<open>=\<close>.
\<close>

definition b64_alphabet :: string where
  "b64_alphabet = ''ABCDEFGHIJKLMNOPQRSTUVWXYZabcdefghijklmnopqrstuvwxyz0123456789+/''"

definition b64_digit :: "nat \<Rightarrow> char" where
  "b64_digit n = b64_alphabet ! (n mod 64)"

fun btoa :: "string \<Rightarrow> string" where
  "btoa [] = []"
| "btoa [x] =
     (let a = (of_char x :: nat)
      in [b64_digit (a div 4), b64_digit ((a mod 4) * 16), CHR ''='', CHR ''=''])"
| "btoa [x, y] =
     (let a = (of_char x :: nat); b = (of_char y :: nat)
      in [b64_digit (a div 4), b64_digit ((a mod 4) * 16 + b div 16),
          b64_digit ((b mod 16) * 4), CHR ''=''])"
| "btoa (x # y # z # rest) =
     (let a = (of_char x :: nat); b = (of_char y :: nat); c = (of_char z :: nat)
      in [b64_digit (a div 4), b64_digit ((a mod 4) * 16 + b div 16),
          b64_digit ((b mod 16) * 4 + c div 64), b64_digit (c mod 64)] @ btoa rest)"

text \<open>\<^verbatim>\<open>s.replace(/c/g, d)\<close> for a single character \<open>c\<close>: every occurrence is replaced.\<close>

definition replace_all :: "char \<Rightarrow> char \<Rightarrow> string \<Rightarrow> string" where
  "replace_all c d s = map (\<lambda>x. if x = c then d else x) s"

text \<open>\<^verbatim>\<open>s.replace(/=+$/, "")\<close>: the run of \<open>=\<close> that ends the string is removed.\<close>

definition strip_trailing_eq :: "string \<Rightarrow> string" where
  "strip_trailing_eq s = rev (dropWhile (\<lambda>x. x = CHR ''='') (rev s))"

text \<open>
  \<^verbatim>\<open>Array.from(bytes, (b) => String.fromCharCode(b)).join("")\<close> builds the binary
  string; then \<^verbatim>\<open>btoa\<close> and the three replacements.
\<close>

definition binString :: "bytes \<Rightarrow> string" where
  "binString bs = map (\<lambda>b. char_of (unat b)) bs"

definition base64url :: "bytes \<Rightarrow> string" where
  "base64url bs =
     strip_trailing_eq (replace_all CHR ''/'' CHR ''_'' (replace_all CHR ''+'' CHR ''-'' (btoa (binString bs))))"

definition generateExchangeId :: "entropy \<Rightarrow> string \<times> entropy" where
  "generateExchangeId rng =
     (case getRandomValues EXCHANGE_ID_BYTES rng of (bs, rng') \<Rightarrow> (base64url bs, rng'))"



section \<open>External libraries\<close>

text \<open>
  A thrown JavaScript \<^verbatim>\<open>Error\<close> is a value carrying its message; a function that can
  throw returns \<open>exn + 'a\<close>, with \<open>Inl\<close> for the exception.
\<close>

datatype exn = Error string

text \<open>The decoded header of a JWE or JWS, and the claims of a JWT (the fields the code reads).\<close>

record ProtectedHeader =
  alg :: "string option"
  enc :: "string option"

record JWTPayload =
  jwt_iss :: "string option"
  jwt_sub :: "string option"

text \<open>
  The functions of jose, noble-hashes and the Workers runtime that the code calls are
  parameters of the model. \<open>jwtVerify\<close> takes the proof, the key-directory URL handed to
  \<^verbatim>\<open>createRemoteJWKSet\<close> and the accepted algorithms; it throws when the directory
  cannot be fetched, no key matches or the signature is wrong. \<open>noble_pbkdf2\<close> is
  \<^verbatim>\<open>pbkdf2(sha256, password, salt, {c, dkLen})\<close> (password, salt, c, dkLen in
  bytes); \<open>subtle_deriveBits\<close> is \<^verbatim>\<open>crypto.subtle.deriveBits\<close> for PBKDF2 with SHA-256
  (salt, iterations, raw key material, length in bits).
\<close>

record Platform =
  decodeProtectedHeader :: "string \<Rightarrow> exn + ProtectedHeader"
  decodeJwt :: "string \<Rightarrow> exn + JWTPayload"
  new_URL :: "string \<Rightarrow> string \<Rightarrow> exn + string"
  jwtVerify :: "string \<Rightarrow> string \<Rightarrow> string list \<Rightarrow> exn + JWTPayload"
  TextEncoder_encode :: "string \<Rightarrow> bytes"
  subtle_digest_SHA256 :: "bytes \<Rightarrow> bytes"
  noble_pbkdf2 :: "string \<Rightarrow> bytes \<Rightarrow> nat \<Rightarrow> nat \<Rightarrow> bytes"
  subtle_deriveBits :: "bytes \<Rightarrow> nat \<Rightarrow> bytes \<Rightarrow> nat \<Rightarrow> bytes"

section \<open>Credential guard (lib/passcode.ts, both versions)\<close>

definition hex_digits :: string where
  "hex_digits = ''0123456789abcdef''"

text \<open>\<^verbatim>\<open>n.toString(16)\<close> for a non-negative integer.\<close>

fun toString16 :: "nat \<Rightarrow> string" where
  "toString16 n =
     (if n < 16 then [hex_digits ! n] else toString16 (n div 16) @ [hex_digits ! (n mod 16)])"

declare toString16.simps [simp del]

definition padStart :: "nat \<Rightarrow> char \<Rightarrow> string \<Rightarrow> string" where
  "padStart n c s = replicate (n - length s) c @ s"

definition toHex :: "bytes \<Rightarrow> string" where
  "toHex bs = concat (map (\<lambda>b. padStart 2 CHR ''0'' (toString16 (unat b))) bs)"

text \<open>
  \<^verbatim>\<open>parseInt(s, 16)\<close>: leading white space is skipped, a sign is read, a prefix
  \<open>0x\<close> or \<open>0X\<close> is dropped, and the longest run of hexadecimal digits is the value;
  with no digit the result is NaN (\<open>None\<close>). Strings are sequences of 8-bit characters
  in this model, so the white space is that of Latin-1.
\<close>

definition is_white_space :: "char \<Rightarrow> bool" where
  "is_white_space c = ((of_char c :: nat) \<in> {9, 10, 11, 12, 13, 32, 160})"

definition hex_value :: "char \<Rightarrow> nat option" where
  "hex_value c =
     (let n = (of_char c :: nat)
      in if 48 \<le> n \<and> n \<le> 57 then Some (n - 48)
         else if 97 \<le> n \<and> n \<le> 102 then Some (n - 87)
         else if 65 \<le> n \<and> n \<le> 70 then Some (n - 55)
         else None)"

definition is_hex_digit :: "char \<Rightarrow> bool" where
  "is_hex_digit c = (hex_value c \<noteq> None)"

definition hex_number :: "string \<Rightarrow> nat" where
  "hex_number ds =
     foldl (\<lambda>acc c. 16 * acc + (case hex_value c of Some d \<Rightarrow> d | None \<Rightarrow> 0)) 0 ds"

definition parseInt16 :: "string \<Rightarrow> int option" where
  "parseInt16 s =
     (let s1 = dropWhile is_white_space s;
          sign = (if s1 \<noteq> [] \<and> hd s1 = CHR ''-'' then - 1 else (1::int));
          s2 = (if s1 \<noteq> [] \<and> (hd s1 = CHR ''+'' \<or> hd s1 = CHR ''-'') then tl s1 else s1);
          s3 = (if take 2 s2 = ''0x'' \<or> take 2 s2 = ''0X'' then drop 2 s2 else s2);
          z = takeWhile is_hex_digit s3
      in if z = [] then None else Some (sign * int (hex_number z)))"

text \<open>Storing a number into a \<^verbatim>\<open>Uint8Array\<close>: NaN is stored as 0, an integer modulo 256.\<close>

definition toUint8 :: "int option \<Rightarrow> byte" where
  "toUint8 v = (case v of None \<Rightarrow> 0 | Some n \<Rightarrow> word_of_int n)"

text \<open>
  \<^verbatim>\<open>fromHex\<close>: the array has \<open>\<lfloor>length / 2\<rfloor>\<close> cells and the loop writes cell \<open>i / 2\<close>
  from the two characters at \<open>i\<close>. With an odd length the last write is out of range,
  which a typed array ignores.
\<close>

fun fromHex :: "string \<Rightarrow> bytes" where
  "fromHex (a # b # rest) = toUint8 (parseInt16 [a, b]) # fromHex rest"
| "fromHex [a] = []"
| "fromHex [] = []"

text \<open>\<^verbatim>\<open>s.split(c)\<close> for a one-character separator: always at least one piece.\<close>

fun split :: "char \<Rightarrow> string \<Rightarrow> string list" where
  "split c [] = [[]]"
| "split c (x # xs) =
     (if x = c then [] # split c xs
      else (case split c xs of p # ps \<Rightarrow> (x # p) # ps | [] \<Rightarrow> [[x]]))"

text \<open>
  \<^verbatim>\<open>crypto.subtle.timingSafeEqual\<close> compares two buffers of equal length; the caller
  returns early when the lengths differ.
\<close>

definition timingSafeEqual :: "bytes \<Rightarrow> bytes \<Rightarrow> bool" where
  "timingSafeEqual a b = (a = b)"

subsection \<open>The version on noble-hashes\<close>

definition deriveKey :: "Platform \<Rightarrow> string \<Rightarrow> bytes \<Rightarrow> bytes" where
  "deriveKey P passcode salt = noble_pbkdf2 P passcode salt PBKDF2_ITERATIONS 32"

definition hashPasscode :: "Platform \<Rightarrow> string \<Rightarrow> entropy \<Rightarrow> string \<times> entropy" where
  "hashPasscode P passcode rng =
     (case getRandomValues PBKDF2_SALT_LENGTH rng of
        (salt, rng') \<Rightarrow>
          (let hash = deriveKey P passcode salt
           in (toHex salt @ '':'' @ toHex hash, rng')))"

text \<open>
  With no \<open>:\<close> in the stored string the second piece is \<^verbatim>\<open>undefined\<close>, and
  \<^verbatim>\<open>fromHex\<close> throws a TypeError on reading its length.
\<close>

definition verifyPasscode :: "Platform \<Rightarrow> string \<Rightarrow> string \<Rightarrow> exn + bool" where
  "verifyPasscode P passcode stored =
     (case split CHR '':'' stored of
        saltHex # hashHex # _ \<Rightarrow>
          (let salt = fromHex saltHex;
               hash = deriveKey P passcode salt;
               expected = fromHex hashHex
           in if length expected \<noteq> length hash then Inr False
              else Inr (timingSafeEqual expected hash))
      | _ \<Rightarrow> Inl (Error ''TypeError''))"

subsection \<open>The version on WebCrypto\<close>

definition deriveKey_subtle :: "Platform \<Rightarrow> string \<Rightarrow> bytes \<Rightarrow> bytes" where
  "deriveKey_subtle P passcode salt =
     (let keyMaterial = TextEncoder_encode P passcode
      in subtle_deriveBits P salt PBKDF2_ITERATIONS keyMaterial 256)"

definition hashPasscode_subtle :: "Platform \<Rightarrow> string \<Rightarrow> entropy \<Rightarrow> string \<times> entropy" where
  "hashPasscode_subtle P passcode rng =
     (case getRandomValues PBKDF2_SALT_LENGTH rng of
        (salt, rng') \<Rightarrow>
          (let hash = deriveKey_subtle P passcode salt
           in (toHex salt @ '':'' @ toHex hash, rng')))"

definition verifyPasscode_subtle :: "Platform \<Rightarrow> string \<Rightarrow> string \<Rightarrow> exn + bool" where
  "verifyPasscode_subtle P passcode stored =
     (case split CHR '':'' stored of
        saltHex # hashHex # _ \<Rightarrow>
          (let salt = fromHex saltHex;
               hash = deriveKey_subtle P passcode salt;
               expected = fromHex hashHex;
               actual = hash
           in if length expected \<noteq> length actual then Inr False
              else Inr (timingSafeEqual expected actual))
      | _ \<Rightarrow> Inl (Error ''TypeError''))"

section \<open>Trust verifier (lib/verify.ts, lib/crypto.ts)\<close>

definition sha256Base64url :: "Platform \<Rightarrow> string \<Rightarrow> string" where
  "sha256Base64url P input =
     (let data = TextEncoder_encode P input;
          hash = subtle_digest_SHA256 P data
      in base64url hash)"

record VerificationResult =
  vr_trusted :: bool
  vr_iss :: "string option"

definition untrusted :: VerificationResult where
  "untrusted = \<lparr>vr_trusted = False, vr_iss = None\<rparr>"

text \<open>The body of the \<^verbatim>\<open>try\<close> block: an exception of a library call leaves it.\<close>

definition verifyExchangeProof_try ::
  "Platform \<Rightarrow> string \<Rightarrow> string \<Rightarrow> exn + VerificationResult" where
  "verifyExchangeProof_try P jwe proof =
     (case decodeProtectedHeader P proof of
        Inl e \<Rightarrow> Inl e
      | Inr header \<Rightarrow>
          if alg header \<noteq> Some ''ES256'' then Inr untrusted
          else
            (case decodeJwt P proof of
               Inl e \<Rightarrow> Inl e
             | Inr unverified \<Rightarrow>
                 (case jwt_iss unverified of
                    None \<Rightarrow> Inr untrusted
                  | Some i \<Rightarrow>
                      if i = [] then Inr untrusted
                      else
                        (case new_URL P (''/'' @ i @ ''/.well-known/jwks.json'') TRUST_GATEWAY_URL of
                           Inl e \<Rightarrow> Inl e
                         | Inr jwksUrl \<Rightarrow>
                             (case jwtVerify P proof jwksUrl [''ES256''] of
                                Inl e \<Rightarrow> Inl e
                              | Inr payload \<Rightarrow>
                                  (let expectedSub = sha256Base64url P jwe
                                   in if jwt_sub payload \<noteq> Some expectedSub then Inr untrusted
                                      else Inr \<lparr>vr_trusted = True, vr_iss = Some i\<rparr>))))))"

text \<open>The function with its \<^verbatim>\<open>catch\<close>: whatever was thrown, the result is untrusted.\<close>

definition verifyExchangeProof ::
  "Platform \<Rightarrow> string \<Rightarrow> string \<Rightarrow> exn + VerificationResult" where
  "verifyExchangeProof P jwe proof =
     (case verifyExchangeProof_try P jwe proof of
        Inl e \<Rightarrow> Inr untrusted
      | Inr r \<Rightarrow> Inr r)"

section \<open>JWE header (lib/crypto.ts)\<close>

definition show_opt :: "string option \<Rightarrow> string" where
  "show_opt v = (case v of None \<Rightarrow> ''undefined'' | Some s \<Rightarrow> s)"

definition quoted :: "string \<Rightarrow> string" where
  "quoted s = [CHR 0x22] @ s @ [CHR 0x22]"

definition validateJweHeader :: "Platform \<Rightarrow> string \<Rightarrow> exn + unit" where
  "validateJweHeader P jwe =
     (case decodeProtectedHeader P jwe of
        Inl e \<Rightarrow> Inl e
      | Inr header \<Rightarrow>
          if alg header \<noteq> Some ''dir''
          then Inl (Error (''Invalid JWE alg: expected '' @ quoted ''dir'' @ '', got ''
                           @ quoted (show_opt (alg header))))
          else if enc header \<noteq> Some ''A256GCM''
          then Inl (Error (''Invalid JWE enc: expected '' @ quoted ''A256GCM'' @ '', got ''
                           @ quoted (show_opt (enc header))))
          else Inr ())"

section \<open>Storage (types.ts, lib/storage.ts)\<close>

record ExchangeMetadata =
  passcodeHash :: "string option"
  exp :: int
  attempts :: int
  label :: "string option"
  createdAt :: int
  trusted :: bool
  iss :: "string option"

text \<open>
  The key-value store keeps, under each key, the metadata that was serialised into it
  and the \<^verbatim>\<open>expirationTtl\<close> (seconds) of the write; the bucket keeps the payload text.
  The store's own reaping of an entry whose time to live has elapsed is not a step of
  these functions.
\<close>

record Bindings =
  EXCHANGE_KV :: "string \<rightharpoonup> ExchangeMetadata \<times> int"
  EXCHANGE_BUCKET :: "string \<rightharpoonup> string"

definition payload_key :: "string \<Rightarrow> string" where
  "payload_key xid = R2_PREFIX @ ''/'' @ xid @ ''/payload.jwe''"

definition metadata_key :: "string \<Rightarrow> string" where
  "metadata_key xid = KV_PREFIX @ '':'' @ xid"

definition storePayload :: "(string \<rightharpoonup> string) \<Rightarrow> string \<Rightarrow> string \<Rightarrow> (string \<rightharpoonup> string)" where
  "storePayload bucket xid jwe = bucket(payload_key xid \<mapsto> jwe)"

definition loadPayload :: "(string \<rightharpoonup> string) \<Rightarrow> string \<Rightarrow> string option" where
  "loadPayload bucket xid = bucket (payload_key xid)"

definition deletePayload :: "(string \<rightharpoonup> string) \<Rightarrow> string \<Rightarrow> (string \<rightharpoonup> string)" where
  "deletePayload bucket xid = bucket(payload_key xid := None)"

definition storeMetadata ::
  "(string \<rightharpoonup> ExchangeMetadata \<times> int) \<Rightarrow> string \<Rightarrow> ExchangeMetadata \<Rightarrow> int
     \<Rightarrow> (string \<rightharpoonup> ExchangeMetadata \<times> int)" where
  "storeMetadata kv xid metadata ttlSeconds = kv(metadata_key xid \<mapsto> (metadata, ttlSeconds))"

definition loadMetadata ::
  "(string \<rightharpoonup> ExchangeMetadata \<times> int) \<Rightarrow> string \<Rightarrow> ExchangeMetadata option" where
  "loadMetadata kv xid = map_option fst (kv (metadata_key xid))"

text \<open>\<open>now\<close> is the reading of \<^verbatim>\<open>Date.now()\<close> inside \<^verbatim>\<open>updateMetadata\<close>.\<close>

definition updateMetadata ::
  "(string \<rightharpoonup> ExchangeMetadata \<times> int) \<Rightarrow> string \<Rightarrow> ExchangeMetadata \<Rightarrow> int
     \<Rightarrow> (string \<rightharpoonup> ExchangeMetadata \<times> int)" where
  "updateMetadata kv xid metadata now =
     (let ttlSeconds = max 1 ((exp metadata - now) div 1000)
      in kv(metadata_key xid \<mapsto> (metadata, ttlSeconds)))"

definition deleteMetadata ::
  "(string \<rightharpoonup> ExchangeMetadata \<times> int) \<Rightarrow> string \<Rightarrow> (string \<rightharpoonup> ExchangeMetadata \<times> int)" where
  "deleteMetadata kv xid = kv(metadata_key xid := None)"

section \<open>Exchange routes (routes/exchange.ts)\<close>

subsection \<open>Request and response bodies\<close>

record CreateExchangeRequest =
  req_payload :: string
  req_passcode :: "string option"
  req_label :: "string option"
  req_exp :: "int option"
  req_proof :: "string option"

record CreateExchangeResponse =
  url :: string
  res_exp :: int
  flag :: string
  res_passcode :: "string option"
  res_trusted :: bool
  res_iss :: "string option"

record RetrieveManifestRequest =
  recipient :: string
  ret_passcode :: "string option"

record ManifestFile =
  contentType :: string
  embedded :: string

record ManifestResponse =
  files :: "ManifestFile list"

record ErrorBody =
  error :: string
  remainingAttempts :: "int option"
  authRequired :: "bool option"

text \<open>
  What a handler produces: \<^verbatim>\<open>c.json(body, status)\<close> with an error body or with the
  route's own body, or an exception that nothing catches.
\<close>

datatype 'a response = Uncaught exn | Json_error ErrorBody nat | Json 'a nat


definition RetrieveRequestSchema :: "RetrieveManifestRequest \<Rightarrow> bool" where
  "RetrieveRequestSchema body =
     (1 \<le> length (recipient body) \<and> length (recipient body) \<le> 200 \<and>
      (case ret_passcode body of None \<Rightarrow> True | Some p \<Rightarrow> 1 \<le> length p))"

text \<open>
  An optional string under a truthiness test (\<^verbatim>\<open>if (x)\<close>, \<^verbatim>\<open>x ? a : b\<close>): the
  string when it is there and not empty.
\<close>

definition present :: "string option \<Rightarrow> string option" where
  "present v = (case v of None \<Rightarrow> None | Some s \<Rightarrow> if s = [] then None else Some s)"

definition plain_error :: "string \<Rightarrow> ErrorBody" where
  "plain_error msg = \<lparr>error = msg, remainingAttempts = None, authRequired = None\<rparr>"

subsection \<open>POST /exchange\<close>

text \<open>Decimal rendering of a non-negative integer in a template string.\<close>

fun show_nat :: "nat \<Rightarrow> string" where
  "show_nat n =
     (if n < 10 then [''0123456789'' ! n] else show_nat (n div 10) @ [''0123456789'' ! (n mod 10)])"

declare show_nat.simps [simp del]

text \<open>Lines 136 to 143: the proof is verified only when one is given.\<close>

definition verify_trust :: "Platform \<Rightarrow> CreateExchangeRequest \<Rightarrow> exn + VerificationResult" where
  "verify_trust P body =
     (case present (req_proof body) of
        None \<Rightarrow> Inr untrusted
      | Some pr \<Rightarrow> verifyExchangeProof P (req_payload body) pr)"

definition maxPayload :: "bool \<Rightarrow> nat" where
  "maxPayload trusted' = (if trusted' then MAX_PAYLOAD_SIZE else UNTRUSTED_MAX_PAYLOAD_SIZE)"

text \<open>
  The message of the 413 reply. \<^verbatim>\<open>Math.round(maxPayload / 1024)\<close> is exact for both
  limits, and so is the division that gives the megabytes.
\<close>

definition too_large_message :: "bool \<Rightarrow> string" where
  "too_large_message trusted' =
     (let tier = (if trusted' then ''trusted'' else ''untrusted'');
          limitKb = (maxPayload trusted' + 512) div 1024
      in ''Payload too large for '' @ tier @ '' tier (max ''
         @ (if limitKb \<ge> 1024 then show_nat (limitKb div 1024) @ ''MB'' else show_nat limitKb @ ''KB'')
         @ '')'')"

text \<open>Lines 158 to 160.\<close>

definition expSeconds :: "bool \<Rightarrow> int option \<Rightarrow> int" where
  "expSeconds trusted' requested =
     (let maxExpiry = (if trusted' then MAX_EXPIRY_SECONDS else UNTRUSTED_EXPIRY_SECONDS);
          defaultExpiry = (if trusted' then DEFAULT_EXPIRY_SECONDS else UNTRUSTED_EXPIRY_SECONDS)
      in min (case requested of None \<Rightarrow> defaultExpiry | Some e \<Rightarrow> e) maxExpiry)"

text \<open>Line 164: the passcode is hashed only when one is given.\<close>

definition hash_if_provided ::
  "Platform \<Rightarrow> string option \<Rightarrow> entropy \<Rightarrow> string option \<times> entropy" where
  "hash_if_provided P pc rng =
     (case present pc of
        None \<Rightarrow> (None, rng)
      | Some p \<Rightarrow> (case hashPasscode P p rng of (h, rng') \<Rightarrow> (Some h, rng')))"

text \<open>
  The handler. \<open>origin\<close> is the scheme and authority of \<^verbatim>\<open>c.req.url\<close>: resolving the
  absolute path \<^verbatim>\<open>/exchange/<id>/manifest.json\<close> against the request's URL keeps them
  and replaces the path. \<open>now\<close> is the reading of the clock at line 161 and
  \<open>now_created\<close> the one at line 179.
\<close>

definition createExchange ::
  "Platform \<Rightarrow> string \<Rightarrow> CreateExchangeRequest \<Rightarrow> int \<Rightarrow> int \<Rightarrow> entropy \<Rightarrow> Bindings
     \<Rightarrow> CreateExchangeResponse response \<times> Bindings" where
  "createExchange P origin body now now_created rng env =
     (case validateJweHeader P (req_payload body) of
        Inl (Error msg) \<Rightarrow> (Json_error (plain_error msg) 400, env)
      | Inr _ \<Rightarrow>
          (case verify_trust P body of
             Inl e \<Rightarrow> (Uncaught e, env)
           | Inr result \<Rightarrow>
               (let trusted' = vr_trusted result;
                    iss' = vr_iss result
                in if length (req_payload body) > maxPayload trusted'
                   then (Json_error (plain_error (too_large_message trusted')) 413, env)
                   else
                     (let expSecs = expSeconds trusted' (req_exp body);
                          expTimestamp = now + expSecs * 1000
                      in case hash_if_provided P (req_passcode body) rng of
                           (hash, rng1) \<Rightarrow>
                             (case generateExchangeId rng1 of
                                (xid, rng2) \<Rightarrow>
                                  (let bucket' = storePayload (EXCHANGE_BUCKET env) xid (req_payload body);
                                       kv' = storeMetadata (EXCHANGE_KV env) xid
                                               \<lparr>passcodeHash = present hash,
                                                exp = expTimestamp,
                                                attempts = 0,
                                                label = req_label body,
                                                createdAt = now_created,
                                                trusted = trusted',
                                                iss = iss'\<rparr>
                                               expSecs
                                   in (Json \<lparr>url = origin @ ''/exchange/'' @ xid @ ''/manifest.json'',
                                             res_exp = expTimestamp,
                                             flag = (if present hash \<noteq> None then ''P'' else []),
                                             res_passcode = None,
                                             res_trusted = trusted',
                                             res_iss = present iss'\<rparr> 201,
                                       \<lparr>EXCHANGE_KV = kv', EXCHANGE_BUCKET = bucket'\<rparr>)))))))"

subsection \<open>POST /exchange/{id}/manifest.json\<close>

definition purge :: "Bindings \<Rightarrow> string \<Rightarrow> Bindings" where
  "purge env xid =
     \<lparr>EXCHANGE_KV = deleteMetadata (EXCHANGE_KV env) xid,
      EXCHANGE_BUCKET = deletePayload (EXCHANGE_BUCKET env) xid\<rparr>"

text \<open>Lines 288 to 304: the payload is loaded and wrapped in the manifest.\<close>

definition send_manifest :: "Bindings \<Rightarrow> string \<Rightarrow> ManifestResponse response" where
  "send_manifest env xid =
     (case present (loadPayload (EXCHANGE_BUCKET env) xid) of
        None \<Rightarrow> Json_error (plain_error ''Payload not found'') 404
      | Some jwe \<Rightarrow>
          Json \<lparr>files = [\<lparr>contentType = ''application/bind+json'', embedded = jwe\<rparr>]\<rparr> 200)"

text \<open>
  The handler. \<open>now\<close> is the reading of the clock at line 247 and \<open>now_update\<close> the one
  inside \<^verbatim>\<open>updateMetadata\<close>.
\<close>

definition retrieveManifest ::
  "Platform \<Rightarrow> string \<Rightarrow> RetrieveManifestRequest \<Rightarrow> int \<Rightarrow> int \<Rightarrow> Bindings
     \<Rightarrow> ManifestResponse response \<times> Bindings" where
  "retrieveManifest P xid body now now_update env =
     (case loadMetadata (EXCHANGE_KV env) xid of
        None \<Rightarrow> (Json_error (plain_error ''Exchange not found or expired'') 404, env)
      | Some metadata \<Rightarrow>
          if now > exp metadata
          then (Json_error (plain_error ''Exchange has expired'') 404, purge env xid)
          else if attempts metadata \<ge> MAX_ATTEMPTS
          then (Json_error \<lparr>error = ''Too many failed attempts. Exchange has been locked.'',
                            remainingAttempts = Some 0, authRequired = None\<rparr> 429,
                purge env xid)
          else
            (case present (passcodeHash metadata) of
               None \<Rightarrow> (send_manifest env xid, env)
             | Some stored \<Rightarrow>
                 (case present (ret_passcode body) of
                    None \<Rightarrow>
                      (Json_error \<lparr>error = ''Passcode required'', remainingAttempts = None,
                                   authRequired = Some True\<rparr> 401, env)
                  | Some pc \<Rightarrow>
                      (case verifyPasscode P pc stored of
                         Inl e \<Rightarrow> (Uncaught e, env)
                       | Inr valid \<Rightarrow>
                           if \<not> valid
                           then
                             (let metadata' = metadata\<lparr>attempts := attempts metadata + 1\<rparr>;
                                  remaining = MAX_ATTEMPTS - attempts metadata';
                                  kv' = updateMetadata (EXCHANGE_KV env) xid metadata' now_update;
                                  bucket' = (if remaining \<le> 0
                                             then deletePayload (EXCHANGE_BUCKET env) xid
                                             else EXCHANGE_BUCKET env)
                              in (Json_error \<lparr>error = ''Invalid passcode'',
                                              remainingAttempts = Some remaining,
                                              authRequired = None\<rparr> 401,
                                  \<lparr>EXCHANGE_KV = kv', EXCHANGE_BUCKET = bucket'\<rparr>))
                           else (send_manifest env xid, env)))))"

section \<open>Histories of requests\<close>







section \<open>A test double of the platform\<close>

text \<open>
  Concrete stand-ins for the library functions, for evaluating the handlers: one payload
  and one proof are accepted, the digest is constant, and the key derivation copies the
  password and the salt into the key.
\<close>

definition test_jwe :: string where
  "test_jwe = ''eyJhbGciOiJkaXIiLCJlbmMiOiJBMjU2R0NNIn0..iv.ciphertext.tag''"

definition test_proof :: string where
  "test_proof = ''eyJhbGciOiJFUzI1NiIsImtpZCI6ImsxIn0.claims.signature''"

definition test_digest :: bytes where
  "test_digest = replicate 32 0"

definition test_claims :: JWTPayload where
  "test_claims = \<lparr>jwt_iss = Some ''acme'', jwt_sub = Some (base64url test_digest)\<rparr>"

definition char_codes :: "string \<Rightarrow> bytes" where
  "char_codes s = map (\<lambda>c. of_nat (of_char c)) s"

definition test_platform :: Platform where
  "test_platform =
     \<lparr>decodeProtectedHeader =
        (\<lambda>s. if s = test_jwe then Inr \<lparr>alg = Some ''dir'', enc = Some ''A256GCM''\<rparr>
             else if s = test_proof then Inr \<lparr>alg = Some ''ES256'', enc = None\<rparr>
             else Inl (Error ''Invalid Token or Protected Header formatting'')),
      decodeJwt = (\<lambda>s. if s = test_proof then Inr test_claims else Inl (Error ''Invalid JWT'')),
      new_URL = (\<lambda>path base. Inr (base @ path)),
      jwtVerify =
        (\<lambda>s jwks algs.
           if s = test_proof \<and> jwks = ''https://bind-pki.org/acme/.well-known/jwks.json''
              \<and> ''ES256'' \<in> set algs
           then Inr test_claims
           else Inl (Error ''signature verification failed'')),
      TextEncoder_encode = char_codes,
      subtle_digest_SHA256 = (\<lambda>data. test_digest),
      noble_pbkdf2 = (\<lambda>password salt c dkLen. take dkLen (char_codes password @ salt @ replicate dkLen 0)),
      subtle_deriveBits =
        (\<lambda>salt iterations keyMaterial bits.
           take (bits div 8) (keyMaterial @ salt @ replicate (bits div 8) 0))\<rparr>"

definition test_request :: CreateExchangeRequest where
  "test_request =
     \<lparr>req_payload = test_jwe, req_passcode = None, req_label = None, req_exp = None,
      req_proof = None\<rparr>"

definition test_entropy :: entropy where
  "test_entropy = (\<lambda>i. of_nat i)"

definition empty_env :: Bindings where
  "empty_env = \<lparr>EXCHANGE_KV = Map.empty, EXCHANGE_BUCKET = Map.empty\<rparr>"

text \<open>A stored, passcode-protected exchange for evaluating retrievals.\<close>

definition test_id :: string where
  "test_id = ''AAECAwQFBgcICQoLDA0ODxAREhMUFRYXGBkaGxwdHh8''"

definition test_hash :: string where
  "test_hash = fst (hashPasscode test_platform ''1234'' test_entropy)"

definition test_metadata :: ExchangeMetadata where
  "test_metadata =
     \<lparr>passcodeHash = Some test_hash, exp = 3601000, attempts = 0, label = None,
      createdAt = 1001, trusted = False, iss = None\<rparr>"

definition test_env :: Bindings where
  "test_env =
     \<lparr>EXCHANGE_KV = [metadata_key test_id \<mapsto> (test_metadata, 3600)],
      EXCHANGE_BUCKET = [payload_key test_id \<mapsto> test_jwe]\<rparr>"

definition no_passcode :: RetrieveManifestRequest where
  "no_passcode = \<lparr>recipient = ''Jane Doe, Marsh McLennan'', ret_passcode = None\<rparr>"

definition with_passcode :: "string \<Rightarrow> RetrieveManifestRequest" where
  "with_passcode pc = \<lparr>recipient = ''Jane Doe, Marsh McLennan'', ret_passcode = Some pc\<rparr>"

definition trusted_request :: CreateExchangeRequest where
  "trusted_request =
     \<lparr>req_payload = test_jwe, req_passcode = Some ''1234'', req_label = Some ''Acme Corp GL Policy Package'',
      req_exp = None, req_proof = Some test_proof\<rparr>"

text \<open>
  Variants of the test double in which one check of the trust verifier fails: the proof's
  header names another algorithm, its claims have no issuer, the key directory cannot be
  reached, and the payload hashes to another digest than the proof's subject.
\<close>

definition wrong_alg_platform :: Platform where
  "wrong_alg_platform =
     test_platform\<lparr>decodeProtectedHeader := (\<lambda>s. Inr \<lparr>alg = Some ''RS256'', enc = None\<rparr>)\<rparr>"

definition no_issuer_platform :: Platform where
  "no_issuer_platform =
     test_platform\<lparr>decodeJwt := (\<lambda>s. Inr \<lparr>jwt_iss = None, jwt_sub = Some (base64url test_digest)\<rparr>)\<rparr>"

definition unreachable_platform :: Platform where
  "unreachable_platform =
     test_platform\<lparr>jwtVerify := (\<lambda>s jwks algs. Inl (Error ''Expected 200 OK from the JSON Web Key Set HTTP response''))\<rparr>"

definition other_digest_platform :: Platform where
  "other_digest_platform = test_platform\<lparr>subtle_digest_SHA256 := (\<lambda>data. replicate 32 1)\<rparr>"



section \<open>Lemmas on the encoders\<close>













section \<open>Lemmas on creation\<close>


lemma verifyExchangeProof_returns: "\<exists>r. verifyExchangeProof P jwe pr = Inr r"
  by (simp add: verifyExchangeProof_def split: sum.splits)

lemma verify_trust_returns: "\<exists>r. verify_trust P body = Inr r"
  using verifyExchangeProof_returns by (simp add: verify_trust_def split: option.splits)

lemma createExchange_success:
  assumes "validateJweHeader P (req_payload body) = Inr ()"
    and "verify_trust P body = Inr r"
    and "length (req_payload body) \<le> maxPayload (vr_trusted r)"
    and "hash_if_provided P (req_passcode body) rng = (hash, rng1)"
    and "generateExchangeId rng1 = (xid, rng2)"
  shows "createExchange P origin body now now_created rng env =
     (Json \<lparr>url = origin @ ''/exchange/'' @ xid @ ''/manifest.json'',
            res_exp = now + expSeconds (vr_trusted r) (req_exp body) * 1000,
            flag = (if present hash \<noteq> None then ''P'' else []),
            res_passcode = None,
            res_trusted = vr_trusted r,
            res_iss = present (vr_iss r)\<rparr> 201,
      \<lparr>EXCHANGE_KV = storeMetadata (EXCHANGE_KV env) xid
           \<lparr>passcodeHash = present hash,
            exp = now + expSeconds (vr_trusted r) (req_exp body) * 1000,
            attempts = 0,
            label = req_label body,
            createdAt = now_created,
            trusted = vr_trusted r,
            iss = vr_iss r\<rparr>
           (expSeconds (vr_trusted r) (req_exp body)),
        EXCHANGE_BUCKET = storePayload (EXCHANGE_BUCKET env) xid (req_payload body)\<rparr>)"
  using assms by (simp add: createExchange_def Let_def)

lemma test_header_valid: "validateJweHeader test_platform test_jwe = Inr ()"
  by (simp add: validateJweHeader_def test_platform_def)

lemma test_request_untrusted: "verify_trust test_platform test_request = Inr untrusted"
  by (simp add: verify_trust_def test_request_def present_def)

lemma test_jwe_length: "length test_jwe = 58"
  by (simp add: test_jwe_def)

section \<open>Lemmas on retrieval\<close>


lemma payload_key_inj: "payload_key a = payload_key b \<longleftrightarrow> a = b"
  by (simp add: payload_key_def)

lemma present_Some: "present v = Some s \<longleftrightarrow> v = Some s \<and> s \<noteq> []"
  by (auto simp: present_def split: option.splits)

lemma present_None: "present v = None \<longleftrightarrow> v = None \<or> v = Some []"
  by (auto simp: present_def split: option.splits)

lemma retrieve_absent:
  "loadMetadata (EXCHANGE_KV env) xid = None \<Longrightarrow>
   retrieveManifest P xid body now now_update env =
     (Json_error (plain_error ''Exchange not found or expired'') 404, env)"
  by (simp add: retrieveManifest_def)

lemma retrieve_expired:
  "loadMetadata (EXCHANGE_KV env) xid = Some m \<Longrightarrow> now > exp m \<Longrightarrow>
   retrieveManifest P xid body now now_update env =
     (Json_error (plain_error ''Exchange has expired'') 404, purge env xid)"
  by (simp add: retrieveManifest_def)



lemma retrieve_auth_required:
  "loadMetadata (EXCHANGE_KV env) xid = Some m \<Longrightarrow> now \<le> exp m \<Longrightarrow> attempts m < MAX_ATTEMPTS \<Longrightarrow>
   present (passcodeHash m) = Some stored \<Longrightarrow> present (ret_passcode body) = None \<Longrightarrow>
   retrieveManifest P xid body now now_update env =
     (Json_error \<lparr>error = ''Passcode required'', remainingAttempts = None,
                  authRequired = Some True\<rparr> 401, env)"
  by (simp add: retrieveManifest_def)


lemma retrieve_valid:
  "loadMetadata (EXCHANGE_KV env) xid = Some m \<Longrightarrow> now \<le> exp m \<Longrightarrow> attempts m < MAX_ATTEMPTS \<Longrightarrow>
   present (passcodeHash m) = Some stored \<Longrightarrow> present (ret_passcode body) = Some pc \<Longrightarrow>
   verifyPasscode P pc stored = Inr True \<Longrightarrow>
   retrieveManifest P xid body now now_update env = (send_manifest env xid, env)"
  by (simp add: retrieveManifest_def)

section \<open>Lemmas on the credential guard\<close>

lemma nat_less_16_cases:
  "d < 16 \<Longrightarrow> d \<in> {0, 1, 2, 3, 4, 5, 6, 7, 8, 9, 10, 11, 12, 13, 14, 15::nat}"
  unfolding insert_iff empty_iff by arith

lemma hex_digit_facts:
  assumes "d < 16"
  shows "hex_value (hex_digits ! d) = Some d"
    and "\<not> is_white_space (hex_digits ! d)"
    and "hex_digits ! d \<noteq> CHR ''+''" and "hex_digits ! d \<noteq> CHR ''-''"
    and "hex_digits ! d \<noteq> CHR ''x''" and "hex_digits ! d \<noteq> CHR ''X''"
    and "hex_digits ! d \<noteq> CHR '':''"
  using nat_less_16_cases [OF assms]
  by (auto simp: hex_digits_def hex_value_def is_white_space_def)

lemma toString16_byte:
  "n < 256 \<Longrightarrow> padStart 2 CHR ''0'' (toString16 n) = [hex_digits ! (n div 16), hex_digits ! (n mod 16)]"
proof -
  assume n: "n < 256"
  then have "n div 16 < 16" by arith
  then show ?thesis
    by (simp add: padStart_def toString16.simps [of n] toString16.simps [of "n div 16"]
        hex_digits_def)
qed

lemma parseInt16_digits:
  assumes "a < 16" "b < 16"
  shows "parseInt16 [hex_digits ! a, hex_digits ! b] = Some (int (16 * a + b))"
  using hex_digit_facts [OF assms(1)] hex_digit_facts [OF assms(2)]
  by (simp add: parseInt16_def Let_def is_hex_digit_def hex_number_def)

lemma unat_byte_less: "unat (b::byte) < 256"
  using unsigned_less [of b, where 'a = nat] by simp

lemma toUint8_unat: "toUint8 (Some (uint (b::byte))) = b"
  by (simp add: toUint8_def)

lemma fromHex_byte:
  "fromHex (padStart 2 CHR ''0'' (toString16 (unat (b::byte))) @ rest) = b # fromHex rest"
proof -
  have n: "unat b < 256" using unsigned_less [of b, where 'a = nat] by simp
  have d: "unat b div 16 < 16" "unat b mod 16 < 16" using n by auto
  have "16 * (unat b div 16) + unat b mod 16 = unat b" by simp
  then show ?thesis
    using toString16_byte [OF n] parseInt16_digits [OF d] by (simp add: toUint8_unat)
qed

lemma fromHex_toHex: "fromHex (toHex bs) = bs"
proof (induction bs)
  case Nil
  show ?case by (simp add: toHex_def)
next
  case (Cons b bs)
  have "toHex (b # bs) = padStart 2 CHR ''0'' (toString16 (unat b)) @ toHex bs"
    by (simp add: toHex_def)
  then show ?case using Cons fromHex_byte by simp
qed

lemma toHex_no_colon: "CHR '':'' \<notin> set (toHex bs)"
proof (induction bs)
  case Nil
  show ?case by (simp add: toHex_def)
next
  case (Cons b bs)
  have n: "unat b < 256" using unsigned_less [of b, where 'a = nat] by simp
  have d: "unat b div 16 < 16" "unat b mod 16 < 16" using n by auto
  have "toHex (b # bs) = padStart 2 CHR ''0'' (toString16 (unat b)) @ toHex bs"
    by (simp add: toHex_def)
  then show ?case
    using Cons toString16_byte [OF n] hex_digit_facts(7) [OF d(1)] hex_digit_facts(7) [OF d(2)]
    by simp
qed

lemma split_no_sep: "c \<notin> set s \<Longrightarrow> split c s = [s]"
  by (induction s) auto

lemma split_at_sep: "c \<notin> set a \<Longrightarrow> split c (a @ c # b) = a # split c b"
  by (induction a) (auto split: list.splits)

lemma split_stored: "split CHR '':'' (toHex a @ CHR '':'' # toHex b) = [toHex a, toHex b]"
  using split_at_sep [OF toHex_no_colon, of a "toHex b"] split_no_sep [OF toHex_no_colon, of b]
  by simp

lemma compare_keys: "(if length a \<noteq> length b then Inr False else Inr (timingSafeEqual a b)) = Inr (a = b)"
  by (auto simp: timingSafeEqual_def)


lemma verifyPasscode_subtle_hashPasscode_subtle:
  "verifyPasscode_subtle P pc (fst (hashPasscode_subtle P pc' rng)) =
     Inr (deriveKey_subtle P pc' (fst (getRandomValues PBKDF2_SALT_LENGTH rng))
          = deriveKey_subtle P pc (fst (getRandomValues PBKDF2_SALT_LENGTH rng)))"
  by (simp add: verifyPasscode_subtle_def hashPasscode_subtle_def getRandomValues_def Let_def
      split_stored fromHex_toHex compare_keys)

lemma hashPasscode_nonempty: "fst (hashPasscode P pc rng) \<noteq> []"
  by (simp add: hashPasscode_def getRandomValues_def Let_def)




lemma test_hash_nonempty: "test_hash \<noteq> []"
  unfolding test_hash_def by (rule hashPasscode_nonempty)

lemma test_env_metadata: "loadMetadata (EXCHANGE_KV test_env) test_id = Some test_metadata"
  by (simp add: loadMetadata_def test_env_def)

section \<open>Further lemmas on the handlers\<close>

lemma createExchange_Json:
  assumes "createExchange P origin body now now_created rng env = (Json resp st, env')"
  shows "validateJweHeader P (req_payload body) = Inr () \<and>
         (\<exists>r. verify_trust P body = Inr r \<and> length (req_payload body) \<le> maxPayload (vr_trusted r))"
  using assms
  by (auto simp: createExchange_def Let_def split: sum.splits exn.splits if_splits prod.splits)



lemma purge_metadata: "loadMetadata (EXCHANGE_KV (purge env xid)) xid = None"
  by (simp add: purge_def loadMetadata_def deleteMetadata_def)

lemma purge_payload: "loadPayload (EXCHANGE_BUCKET (purge env xid)) xid = None"
  by (simp add: purge_def loadPayload_def deletePayload_def)


lemma createExchange_Json_shape:
  assumes "createExchange P origin body now now_created rng env = (Json resp st, env')"
  obtains r hash rng1 xid rng2 where
    "verify_trust P body = Inr r"
    "hash_if_provided P (req_passcode body) rng = (hash, rng1)"
    "generateExchangeId rng1 = (xid, rng2)"
    "st = 201"
    "resp = \<lparr>url = origin @ ''/exchange/'' @ xid @ ''/manifest.json'',
             res_exp = now + expSeconds (vr_trusted r) (req_exp body) * 1000,
             flag = (if present hash \<noteq> None then ''P'' else []),
             res_passcode = None,
             res_trusted = vr_trusted r,
             res_iss = present (vr_iss r)\<rparr>"
    "env' = \<lparr>EXCHANGE_KV = storeMetadata (EXCHANGE_KV env) xid
               \<lparr>passcodeHash = present hash,
                exp = now + expSeconds (vr_trusted r) (req_exp body) * 1000,
                attempts = 0,
                label = req_label body,
                createdAt = now_created,
                trusted = vr_trusted r,
                iss = vr_iss r\<rparr>
               (expSeconds (vr_trusted r) (req_exp body)),
             EXCHANGE_BUCKET = storePayload (EXCHANGE_BUCKET env) xid (req_payload body)\<rparr>"
proof -
  obtain hash rng1 where hp: "hash_if_provided P (req_passcode body) rng = (hash, rng1)"
    by (cases "hash_if_provided P (req_passcode body) rng")
  obtain xid rng2 where gen: "generateExchangeId rng1 = (xid, rng2)"
    by (cases "generateExchangeId rng1")
  from createExchange_Json [OF assms] obtain r where
    v: "validateJweHeader P (req_payload body) = Inr ()" and
    t: "verify_trust P body = Inr r" and
    l: "length (req_payload body) \<le> maxPayload (vr_trusted r)"
    by blast
  have "Json resp st = fst (createExchange P origin body now now_created rng env)"
    and "env' = snd (createExchange P origin body now now_created rng env)"
    using assms by simp_all
  then have "st = 201" and
    "resp = \<lparr>url = origin @ ''/exchange/'' @ xid @ ''/manifest.json'',
             res_exp = now + expSeconds (vr_trusted r) (req_exp body) * 1000,
             flag = (if present hash \<noteq> None then ''P'' else []),
             res_passcode = None,
             res_trusted = vr_trusted r,
             res_iss = present (vr_iss r)\<rparr>" and
    "env' = \<lparr>EXCHANGE_KV = storeMetadata (EXCHANGE_KV env) xid
               \<lparr>passcodeHash = present hash,
                exp = now + expSeconds (vr_trusted r) (req_exp body) * 1000,
                attempts = 0,
                label = req_label body,
                createdAt = now_created,
                trusted = vr_trusted r,
                iss = vr_iss r\<rparr>
               (expSeconds (vr_trusted r) (req_exp body)),
             EXCHANGE_BUCKET = storePayload (EXCHANGE_BUCKET env) xid (req_payload body)\<rparr>"
    unfolding createExchange_success [OF v t l hp gen] by simp_all
  with t hp gen show thesis by (rule that)
qed

lemma trusted_request_trusted:
  "verify_trust test_platform trusted_request = Inr \<lparr>vr_trusted = True, vr_iss = Some ''acme''\<rparr>"
  by (simp add: verify_trust_def trusted_request_def present_def test_proof_def
      verifyExchangeProof_def verifyExchangeProof_try_def test_platform_def test_claims_def
      TRUST_GATEWAY_URL_def sha256Base64url_def test_jwe_def)

lemma test_creation:
  "\<exists>resp env'. createExchange test_platform ''https://exchange.test'' test_request 1000 1001
      test_entropy empty_env = (Json resp 201, env')"
proof -
  obtain hash rng1 where hp: "hash_if_provided test_platform (req_passcode test_request) test_entropy = (hash, rng1)"
    by (cases "hash_if_provided test_platform (req_passcode test_request) test_entropy")
  obtain xid rng2 where gen: "generateExchangeId rng1 = (xid, rng2)"
    by (cases "generateExchangeId rng1")
  have v: "validateJweHeader test_platform (req_payload test_request) = Inr ()"
    using test_header_valid by (simp add: test_request_def)
  have sz: "length (req_payload test_request) \<le> maxPayload (vr_trusted untrusted)"
    by (simp add: test_request_def test_jwe_length maxPayload_def untrusted_def
        UNTRUSTED_MAX_PAYLOAD_SIZE_def)
  show ?thesis
    unfolding createExchange_success [OF v test_request_untrusted sz hp gen] by blast
qed

lemma trusted_creation:
  "\<exists>resp env'. createExchange test_platform ''https://exchange.test'' trusted_request 1000 1001
      test_entropy empty_env = (Json resp 201, env')"
proof -
  obtain hash rng1 where hp: "hash_if_provided test_platform (req_passcode trusted_request) test_entropy = (hash, rng1)"
    by (cases "hash_if_provided test_platform (req_passcode trusted_request) test_entropy")
  obtain xid rng2 where gen: "generateExchangeId rng1 = (xid, rng2)"
    by (cases "generateExchangeId rng1")
  have v: "validateJweHeader test_platform (req_payload trusted_request) = Inr ()"
    using test_header_valid by (simp add: trusted_request_def)
  have sz: "length (req_payload trusted_request)
              \<le> maxPayload (vr_trusted \<lparr>vr_trusted = True, vr_iss = Some ''acme''\<rparr>)"
    by (simp add: trusted_request_def test_jwe_length maxPayload_def MAX_PAYLOAD_SIZE_def)
  show ?thesis
    unfolding createExchange_success [OF v trusted_request_trusted sz hp gen] by blast
qed

section \<open>Lemmas on the trust verifier\<close>

lemma verifyExchangeProof_cases:
  "verifyExchangeProof P jwe pr = Inr untrusted \<or>
   (\<exists>h c i u v. decodeProtectedHeader P pr = Inr h \<and> alg h = Some ''ES256'' \<and>
      decodeJwt P pr = Inr c \<and> jwt_iss c = Some i \<and> i \<noteq> [] \<and>
      new_URL P (''/'' @ i @ ''/.well-known/jwks.json'') TRUST_GATEWAY_URL = Inr u \<and>
      jwtVerify P pr u [''ES256''] = Inr v \<and>
      jwt_sub v = Some (sha256Base64url P jwe) \<and>
      verifyExchangeProof P jwe pr = Inr \<lparr>vr_trusted = True, vr_iss = Some i\<rparr>)"
  by (simp add: verifyExchangeProof_def verifyExchangeProof_try_def Let_def
      split: sum.splits option.splits)

lemma verifyExchangeProof_trusted:
  assumes "decodeProtectedHeader P pr = Inr h" "alg h = Some ''ES256''"
    "decodeJwt P pr = Inr c" "jwt_iss c = Some i" "i \<noteq> []"
    "new_URL P (''/'' @ i @ ''/.well-known/jwks.json'') TRUST_GATEWAY_URL = Inr u"
    "jwtVerify P pr u [''ES256''] = Inr v"
    "jwt_sub v = Some (sha256Base64url P jwe)"
  shows "verifyExchangeProof P jwe pr = Inr \<lparr>vr_trusted = True, vr_iss = Some i\<rparr>"
  using assms by (simp add: verifyExchangeProof_def verifyExchangeProof_try_def Let_def)

lemma verifyExchangeProof_wrong_alg:
  "decodeProtectedHeader P pr = Inr h \<Longrightarrow> alg h \<noteq> Some ''ES256'' \<Longrightarrow>
   verifyExchangeProof P jwe pr = Inr untrusted"
  by (simp add: verifyExchangeProof_def verifyExchangeProof_try_def)

lemma verifyExchangeProof_no_issuer:
  "decodeJwt P pr = Inr c \<Longrightarrow> present (jwt_iss c) = None \<Longrightarrow>
   verifyExchangeProof P jwe pr = Inr untrusted"
  by (auto simp: verifyExchangeProof_def verifyExchangeProof_try_def present_None
      split: sum.splits)

lemma verifyExchangeProof_verify_throws:
  "decodeJwt P pr = Inr c \<Longrightarrow> jwt_iss c = Some i \<Longrightarrow>
   new_URL P (''/'' @ i @ ''/.well-known/jwks.json'') TRUST_GATEWAY_URL = Inr u \<Longrightarrow>
   jwtVerify P pr u [''ES256''] = Inl e \<Longrightarrow>
   verifyExchangeProof P jwe pr = Inr untrusted"
  by (simp add: verifyExchangeProof_def verifyExchangeProof_try_def split: sum.splits)

lemma verifyExchangeProof_sub_mismatch:
  "decodeJwt P pr = Inr c \<Longrightarrow> jwt_iss c = Some i \<Longrightarrow>
   new_URL P (''/'' @ i @ ''/.well-known/jwks.json'') TRUST_GATEWAY_URL = Inr u \<Longrightarrow>
   jwtVerify P pr u [''ES256''] = Inr v \<Longrightarrow>
   jwt_sub v \<noteq> Some (sha256Base64url P jwe) \<Longrightarrow>
   verifyExchangeProof P jwe pr = Inr untrusted"
  by (simp add: verifyExchangeProof_def verifyExchangeProof_try_def Let_def split: sum.splits)

lemma digests_differ: "base64url test_digest \<noteq> base64url (replicate 32 1)"
  unfolding test_digest_def by code_simp

section \<open>Lemmas on lockout\<close>











section \<open>Round trip\<close>



section \<open>Lockout\<close>



section \<open>The passcode in the creation response\<close>




section \<open>Expired and absent exchanges\<close>

text \<open>
  C4, as stated, fails: for a stored record whose expiry has passed the handler answers
  404 with the message "Exchange has expired", for an identifier with no record it
  answers 404 with the message "Exchange not found or expired". The two error bodies
  differ, so the caller can tell the cases apart.
\<close>

theorem expired_differs_from_absent:
  "loadMetadata (EXCHANGE_KV test_env) test_id = Some test_metadata \<and>
   exp test_metadata < 3601001 \<and>
   loadMetadata (EXCHANGE_KV empty_env) test_id = None \<and>
   fst (retrieveManifest test_platform test_id no_passcode 3601001 3601002 test_env)
     = Json_error (plain_error ''Exchange has expired'') 404 \<and>
   fst (retrieveManifest test_platform test_id no_passcode 3601001 3601002 empty_env)
     = Json_error (plain_error ''Exchange not found or expired'') 404 \<and>
   fst (retrieveManifest test_platform test_id no_passcode 3601001 3601002 test_env)
     \<noteq> fst (retrieveManifest test_platform test_id no_passcode 3601001 3601002 empty_env)"
proof -
  have e: "exp test_metadata < 3601001" by (simp add: test_metadata_def)
  have n: "loadMetadata (EXCHANGE_KV empty_env) test_id = None"
    by (simp add: loadMetadata_def empty_env_def)
  show ?thesis
    unfolding retrieve_expired [OF test_env_metadata e] retrieve_absent [OF n]
    using test_env_metadata e n by (simp add: plain_error_def)
qed

text \<open>
  C4, amended. Both outcomes have status 404 and an error body with the message alone (no
  \<open>remainingAttempts\<close>, no \<open>authRequired\<close>); the message is "Exchange has expired" when
  the record exists and the clock is past its expiry, and "Exchange not found or expired"
  when there is no record. The expired retrieval deletes the record and the payload, so
  every later retrieval of that identifier gets the answer of an absent one.
\<close>

theorem expired_and_absent_both_answer_404:
  "(loadMetadata (EXCHANGE_KV env) xid = None \<longrightarrow>
      retrieveManifest P xid body now now_update env =
        (Json_error (plain_error ''Exchange not found or expired'') 404, env)) \<and>
   (\<forall>m. loadMetadata (EXCHANGE_KV env) xid = Some m \<and> exp m < now \<longrightarrow>
      retrieveManifest P xid body now now_update env =
        (Json_error (plain_error ''Exchange has expired'') 404, purge env xid) \<and>
      loadMetadata (EXCHANGE_KV (purge env xid)) xid = None \<and>
      loadPayload (EXCHANGE_BUCKET (purge env xid)) xid = None \<and>
      (\<forall>body' now' now_update'.
         retrieveManifest P xid body' now' now_update' (purge env xid) =
           (Json_error (plain_error ''Exchange not found or expired'') 404, purge env xid)))"
  by (simp add: retrieve_absent retrieve_expired purge_metadata purge_payload)

theorem expired_and_absent_both_answer_404_witness:
  "retrieveManifest test_platform test_id no_passcode 3601001 3601002 empty_env =
     (Json_error (plain_error ''Exchange not found or expired'') 404, empty_env) \<and>
   retrieveManifest test_platform test_id no_passcode 3601001 3601002 test_env =
     (Json_error (plain_error ''Exchange has expired'') 404, purge test_env test_id) \<and>
   retrieveManifest test_platform test_id (with_passcode ''1234'') 3601003 3601004 (purge test_env test_id) =
     (Json_error (plain_error ''Exchange not found or expired'') 404, purge test_env test_id)"
proof -
  have e: "exp test_metadata < 3601001" by (simp add: test_metadata_def)
  have n: "loadMetadata (EXCHANGE_KV empty_env) test_id = None"
    by (simp add: loadMetadata_def empty_env_def)
  note t = expired_and_absent_both_answer_404
             [of test_env test_id test_platform no_passcode 3601001 3601002]
  note a = expired_and_absent_both_answer_404
             [of empty_env test_id test_platform no_passcode 3601001 3601002]
  from a n t test_env_metadata e show ?thesis by blast
qed

section \<open>A failed passcode verification\<close>



section \<open>Trust verification\<close>

text \<open>
  C6. \<open>verifyExchangeProof\<close> always returns a result and never an exception, whatever
  the library calls inside it do. The result is \<open>trusted = false\<close> with no issuer
  whenever the proof's header has an algorithm other than ES256, whenever the claims
  have no issuer (or an empty one), whenever \<open>jwtVerify\<close> throws (the key directory cannot be fetched, or
  the signature does not verify), and whenever the verified subject differs from the
  base64url SHA-256 digest of the payload; each of these alone is enough. The result is
  \<open>trusted = true\<close> with the issuer when every check passes, and only then; an untrusted
  result never carries an issuer.
\<close>

theorem verification_is_fail_closed:
  "(\<exists>r. verifyExchangeProof P jwe pr = Inr r) \<and>
   (\<forall>h. decodeProtectedHeader P pr = Inr h \<and> alg h \<noteq> Some ''ES256'' \<longrightarrow>
      verifyExchangeProof P jwe pr = Inr \<lparr>vr_trusted = False, vr_iss = None\<rparr>) \<and>
   (\<forall>c. decodeJwt P pr = Inr c \<and> present (jwt_iss c) = None \<longrightarrow>
      verifyExchangeProof P jwe pr = Inr \<lparr>vr_trusted = False, vr_iss = None\<rparr>) \<and>
   (\<forall>c i u e. decodeJwt P pr = Inr c \<and> jwt_iss c = Some i \<and>
      new_URL P (''/'' @ i @ ''/.well-known/jwks.json'') TRUST_GATEWAY_URL = Inr u \<and>
      jwtVerify P pr u [''ES256''] = Inl e \<longrightarrow>
      verifyExchangeProof P jwe pr = Inr \<lparr>vr_trusted = False, vr_iss = None\<rparr>) \<and>
   (\<forall>c i u v. decodeJwt P pr = Inr c \<and> jwt_iss c = Some i \<and>
      new_URL P (''/'' @ i @ ''/.well-known/jwks.json'') TRUST_GATEWAY_URL = Inr u \<and>
      jwtVerify P pr u [''ES256''] = Inr v \<and>
      jwt_sub v \<noteq> Some (base64url (subtle_digest_SHA256 P (TextEncoder_encode P jwe))) \<longrightarrow>
      verifyExchangeProof P jwe pr = Inr \<lparr>vr_trusted = False, vr_iss = None\<rparr>) \<and>
   (\<forall>h c i u v. decodeProtectedHeader P pr = Inr h \<and> alg h = Some ''ES256'' \<and>
      decodeJwt P pr = Inr c \<and> jwt_iss c = Some i \<and> i \<noteq> [] \<and>
      new_URL P (''/'' @ i @ ''/.well-known/jwks.json'') TRUST_GATEWAY_URL = Inr u \<and>
      jwtVerify P pr u [''ES256''] = Inr v \<and>
      jwt_sub v = Some (base64url (subtle_digest_SHA256 P (TextEncoder_encode P jwe))) \<longrightarrow>
      verifyExchangeProof P jwe pr = Inr \<lparr>vr_trusted = True, vr_iss = Some i\<rparr>) \<and>
   (\<forall>r. verifyExchangeProof P jwe pr = Inr r \<and> vr_trusted r \<longrightarrow>
      (\<exists>h c i u v. decodeProtectedHeader P pr = Inr h \<and> alg h = Some ''ES256'' \<and>
         decodeJwt P pr = Inr c \<and> jwt_iss c = Some i \<and> i \<noteq> [] \<and>
         new_URL P (''/'' @ i @ ''/.well-known/jwks.json'') TRUST_GATEWAY_URL = Inr u \<and>
         jwtVerify P pr u [''ES256''] = Inr v \<and>
         jwt_sub v = Some (base64url (subtle_digest_SHA256 P (TextEncoder_encode P jwe))) \<and>
         vr_iss r = Some i)) \<and>
   (\<forall>r. verifyExchangeProof P jwe pr = Inr r \<and> \<not> vr_trusted r \<longrightarrow> vr_iss r = None)"
proof -
  have sha: "sha256Base64url P jwe = base64url (subtle_digest_SHA256 P (TextEncoder_encode P jwe))"
    by (simp add: sha256Base64url_def)
  have u: "untrusted = \<lparr>vr_trusted = False, vr_iss = None\<rparr>"
    by (simp add: untrusted_def)
  have 1: "\<exists>r. verifyExchangeProof P jwe pr = Inr r"
    by (rule verifyExchangeProof_returns)
  have 2: "\<forall>h. decodeProtectedHeader P pr = Inr h \<and> alg h \<noteq> Some ''ES256'' \<longrightarrow>
      verifyExchangeProof P jwe pr = Inr \<lparr>vr_trusted = False, vr_iss = None\<rparr>"
    using verifyExchangeProof_wrong_alg [of P pr _ jwe] unfolding u by blast
  have 3: "\<forall>c. decodeJwt P pr = Inr c \<and> present (jwt_iss c) = None \<longrightarrow>
      verifyExchangeProof P jwe pr = Inr \<lparr>vr_trusted = False, vr_iss = None\<rparr>"
    using verifyExchangeProof_no_issuer [of P pr _ jwe] unfolding u by blast
  have 4: "\<forall>c i u e. decodeJwt P pr = Inr c \<and> jwt_iss c = Some i \<and>
      new_URL P (''/'' @ i @ ''/.well-known/jwks.json'') TRUST_GATEWAY_URL = Inr u \<and>
      jwtVerify P pr u [''ES256''] = Inl e \<longrightarrow>
      verifyExchangeProof P jwe pr = Inr \<lparr>vr_trusted = False, vr_iss = None\<rparr>"
    using verifyExchangeProof_verify_throws [of P pr _ _ _ _ jwe] unfolding u by blast
  have 5: "\<forall>c i u v. decodeJwt P pr = Inr c \<and> jwt_iss c = Some i \<and>
      new_URL P (''/'' @ i @ ''/.well-known/jwks.json'') TRUST_GATEWAY_URL = Inr u \<and>
      jwtVerify P pr u [''ES256''] = Inr v \<and>
      jwt_sub v \<noteq> Some (base64url (subtle_digest_SHA256 P (TextEncoder_encode P jwe))) \<longrightarrow>
      verifyExchangeProof P jwe pr = Inr \<lparr>vr_trusted = False, vr_iss = None\<rparr>"
    using verifyExchangeProof_sub_mismatch [of P pr _ _ _ _ jwe] unfolding u sha by blast
  have 6: "\<forall>h c i u v. decodeProtectedHeader P pr = Inr h \<and> alg h = Some ''ES256'' \<and>
      decodeJwt P pr = Inr c \<and> jwt_iss c = Some i \<and> i \<noteq> [] \<and>
      new_URL P (''/'' @ i @ ''/.well-known/jwks.json'') TRUST_GATEWAY_URL = Inr u \<and>
      jwtVerify P pr u [''ES256''] = Inr v \<and>
      jwt_sub v = Some (base64url (subtle_digest_SHA256 P (TextEncoder_encode P jwe))) \<longrightarrow>
      verifyExchangeProof P jwe pr = Inr \<lparr>vr_trusted = True, vr_iss = Some i\<rparr>"
    using verifyExchangeProof_trusted [of P pr _ _ _ _ _ jwe] unfolding sha by blast
  have 7: "\<forall>r. verifyExchangeProof P jwe pr = Inr r \<and> vr_trusted r \<longrightarrow>
      (\<exists>h c i u v. decodeProtectedHeader P pr = Inr h \<and> alg h = Some ''ES256'' \<and>
         decodeJwt P pr = Inr c \<and> jwt_iss c = Some i \<and> i \<noteq> [] \<and>
         new_URL P (''/'' @ i @ ''/.well-known/jwks.json'') TRUST_GATEWAY_URL = Inr u \<and>
         jwtVerify P pr u [''ES256''] = Inr v \<and>
         jwt_sub v = Some (base64url (subtle_digest_SHA256 P (TextEncoder_encode P jwe))) \<and>
         vr_iss r = Some i)"
    using verifyExchangeProof_cases [of P jwe pr] unfolding sha
    by (auto simp: untrusted_def)
  have 8: "\<forall>r. verifyExchangeProof P jwe pr = Inr r \<and> \<not> vr_trusted r \<longrightarrow> vr_iss r = None"
    using verifyExchangeProof_cases [of P jwe pr] by (auto simp: untrusted_def)
  from 1 2 3 4 5 6 7 8 show ?thesis by (intro conjI)
qed

theorem verification_is_fail_closed_witness:
  "verifyExchangeProof test_platform test_jwe test_proof
     = Inr \<lparr>vr_trusted = True, vr_iss = Some ''acme''\<rparr> \<and>
   verifyExchangeProof wrong_alg_platform test_jwe test_proof
     = Inr \<lparr>vr_trusted = False, vr_iss = None\<rparr> \<and>
   verifyExchangeProof no_issuer_platform test_jwe test_proof
     = Inr \<lparr>vr_trusted = False, vr_iss = None\<rparr> \<and>
   verifyExchangeProof unreachable_platform test_jwe test_proof
     = Inr \<lparr>vr_trusted = False, vr_iss = None\<rparr> \<and>
   verifyExchangeProof other_digest_platform test_jwe test_proof
     = Inr \<lparr>vr_trusted = False, vr_iss = None\<rparr>"
proof (intro conjI)
  have "decodeProtectedHeader test_platform test_proof = Inr \<lparr>alg = Some ''ES256'', enc = None\<rparr>"
    "alg \<lparr>alg = Some ''ES256'', enc = None\<rparr> = Some ''ES256''"
    "decodeJwt test_platform test_proof = Inr test_claims"
    "jwt_iss test_claims = Some ''acme''" "''acme'' \<noteq> []"
    "new_URL test_platform (''/'' @ ''acme'' @ ''/.well-known/jwks.json'') TRUST_GATEWAY_URL
       = Inr ''https://bind-pki.org/acme/.well-known/jwks.json''"
    "jwtVerify test_platform test_proof ''https://bind-pki.org/acme/.well-known/jwks.json'' [''ES256'']
       = Inr test_claims"
    "jwt_sub test_claims
       = Some (base64url (subtle_digest_SHA256 test_platform (TextEncoder_encode test_platform test_jwe)))"
    by (simp_all add: test_platform_def test_proof_def test_jwe_def test_claims_def
        TRUST_GATEWAY_URL_def)
  with verification_is_fail_closed [of test_platform test_jwe test_proof]
  show "verifyExchangeProof test_platform test_jwe test_proof
          = Inr \<lparr>vr_trusted = True, vr_iss = Some ''acme''\<rparr>"
    by blast
next
  have "decodeProtectedHeader wrong_alg_platform test_proof = Inr \<lparr>alg = Some ''RS256'', enc = None\<rparr>"
    "alg \<lparr>alg = Some ''RS256'', enc = None\<rparr> \<noteq> Some ''ES256''"
    by (simp_all add: wrong_alg_platform_def)
  with verification_is_fail_closed [of wrong_alg_platform test_jwe test_proof]
  show "verifyExchangeProof wrong_alg_platform test_jwe test_proof
          = Inr \<lparr>vr_trusted = False, vr_iss = None\<rparr>"
    by blast
next
  have "decodeJwt no_issuer_platform test_proof
          = Inr \<lparr>jwt_iss = None, jwt_sub = Some (base64url test_digest)\<rparr>"
    "present (jwt_iss \<lparr>jwt_iss = None, jwt_sub = Some (base64url test_digest)\<rparr>) = None"
    by (simp_all add: no_issuer_platform_def present_def)
  with verification_is_fail_closed [of no_issuer_platform test_jwe test_proof]
  show "verifyExchangeProof no_issuer_platform test_jwe test_proof
          = Inr \<lparr>vr_trusted = False, vr_iss = None\<rparr>"
    by blast
next
  have "decodeJwt unreachable_platform test_proof = Inr test_claims"
    "jwt_iss test_claims = Some ''acme''"
    "new_URL unreachable_platform (''/'' @ ''acme'' @ ''/.well-known/jwks.json'') TRUST_GATEWAY_URL
       = Inr ''https://bind-pki.org/acme/.well-known/jwks.json''"
    "jwtVerify unreachable_platform test_proof ''https://bind-pki.org/acme/.well-known/jwks.json''
       [''ES256''] = Inl (Error ''Expected 200 OK from the JSON Web Key Set HTTP response'')"
    by (simp_all add: unreachable_platform_def test_platform_def test_claims_def
        TRUST_GATEWAY_URL_def)
  with verification_is_fail_closed [of unreachable_platform test_jwe test_proof]
  show "verifyExchangeProof unreachable_platform test_jwe test_proof
          = Inr \<lparr>vr_trusted = False, vr_iss = None\<rparr>"
    by blast
next
  have "decodeJwt other_digest_platform test_proof = Inr test_claims"
    "jwt_iss test_claims = Some ''acme''"
    "new_URL other_digest_platform (''/'' @ ''acme'' @ ''/.well-known/jwks.json'') TRUST_GATEWAY_URL
       = Inr ''https://bind-pki.org/acme/.well-known/jwks.json''"
    "jwtVerify other_digest_platform test_proof ''https://bind-pki.org/acme/.well-known/jwks.json''
       [''ES256''] = Inr test_claims"
    "jwt_sub test_claims
       \<noteq> Some (base64url (subtle_digest_SHA256 other_digest_platform
                            (TextEncoder_encode other_digest_platform test_jwe)))"
    using digests_differ
    by (simp_all add: other_digest_platform_def test_platform_def test_claims_def
        TRUST_GATEWAY_URL_def)
  with verification_is_fail_closed [of other_digest_platform test_jwe test_proof]
  show "verifyExchangeProof other_digest_platform test_jwe test_proof
          = Inr \<lparr>vr_trusted = False, vr_iss = None\<rparr>"
    by blast
qed

section \<open>Effective expiry\<close>

text \<open>
  C7. For every creation answered with the route's body, the effective expiry in seconds
  is the minimum of the requested seconds (or, with none requested, the default of the
  tier) and the maximum of the tier: default 72 hours and maximum 366 days when the
  exchange is trusted, one hour for both otherwise. The expiry in the answer and the one
  in the stored record are the clock's reading plus 1000 times those seconds, and the
  record's time to live is those seconds.
\<close>

theorem effective_expiry:
  assumes "createExchange P origin body now now_created rng env = (Json resp st, env')"
    and "verify_trust P body = Inr r"
  shows "\<exists>secs xid m.
           secs = min (case req_exp body of
                         None \<Rightarrow> (if vr_trusted r then 72 * 60 * 60 else 60 * 60)
                       | Some e \<Rightarrow> e)
                      (if vr_trusted r then 366 * 24 * 60 * 60 else 60 * 60) \<and>
           res_trusted resp = vr_trusted r \<and>
           res_exp resp = now + secs * 1000 \<and>
           url resp = origin @ ''/exchange/'' @ xid @ ''/manifest.json'' \<and>
           EXCHANGE_KV env' (metadata_key xid) = Some (m, secs) \<and>
           exp m = now + secs * 1000"
proof -
  obtain r' hash rng1 xid rng2 where
    t: "verify_trust P body = Inr r'" and
    "hash_if_provided P (req_passcode body) rng = (hash, rng1)" and
    "generateExchangeId rng1 = (xid, rng2)" and
    "st = 201" and
    resp: "resp = \<lparr>url = origin @ ''/exchange/'' @ xid @ ''/manifest.json'',
             res_exp = now + expSeconds (vr_trusted r') (req_exp body) * 1000,
             flag = (if present hash \<noteq> None then ''P'' else []),
             res_passcode = None,
             res_trusted = vr_trusted r',
             res_iss = present (vr_iss r')\<rparr>" and
    env': "env' = \<lparr>EXCHANGE_KV = storeMetadata (EXCHANGE_KV env) xid
               \<lparr>passcodeHash = present hash,
                exp = now + expSeconds (vr_trusted r') (req_exp body) * 1000,
                attempts = 0,
                label = req_label body,
                createdAt = now_created,
                trusted = vr_trusted r',
                iss = vr_iss r'\<rparr>
               (expSeconds (vr_trusted r') (req_exp body)),
             EXCHANGE_BUCKET = storePayload (EXCHANGE_BUCKET env) xid (req_payload body)\<rparr>"
    by (rule createExchange_Json_shape [OF assms(1)])
  have r: "r' = r" using t assms(2) by simp
  have secs: "expSeconds (vr_trusted r) (req_exp body) =
          min (case req_exp body of
                 None \<Rightarrow> (if vr_trusted r then 72 * 60 * 60 else 60 * 60)
               | Some e \<Rightarrow> e)
              (if vr_trusted r then 366 * 24 * 60 * 60 else 60 * 60)"
    by (simp add: expSeconds_def DEFAULT_EXPIRY_SECONDS_def MAX_EXPIRY_SECONDS_def
        UNTRUSTED_EXPIRY_SECONDS_def split: option.splits)
  have "\<exists>xid m.
           res_trusted resp = vr_trusted r \<and>
           res_exp resp = now + expSeconds (vr_trusted r) (req_exp body) * 1000 \<and>
           url resp = origin @ ''/exchange/'' @ xid @ ''/manifest.json'' \<and>
           EXCHANGE_KV env' (metadata_key xid) = Some (m, expSeconds (vr_trusted r) (req_exp body)) \<and>
           exp m = now + expSeconds (vr_trusted r) (req_exp body) * 1000"
    by (rule exI [of _ xid]) (simp add: resp env' r storeMetadata_def)
  then show ?thesis unfolding secs by blast
qed

theorem effective_expiry_witness:
  "(\<exists>resp env'.
      createExchange test_platform ''https://exchange.test'' trusted_request 1000 1001 test_entropy
        empty_env = (Json resp 201, env') \<and>
      res_trusted resp \<and> res_exp resp = 1000 + 259200 * 1000) \<and>
   (\<exists>resp env'.
      createExchange test_platform ''https://exchange.test'' test_request 1000 1001 test_entropy
        empty_env = (Json resp 201, env') \<and>
      \<not> res_trusted resp \<and> res_exp resp = 1000 + 3600 * 1000)"
proof (rule conjI)
  from trusted_creation obtain resp env' where
    c: "createExchange test_platform ''https://exchange.test'' trusted_request 1000 1001 test_entropy
          empty_env = (Json resp 201, env')"
    by blast
  have "res_trusted resp \<and> res_exp resp = 1000 + 259200 * 1000"
    using effective_expiry [OF c trusted_request_trusted] by (auto simp: trusted_request_def)
  then show "\<exists>resp env'.
      createExchange test_platform ''https://exchange.test'' trusted_request 1000 1001 test_entropy
        empty_env = (Json resp 201, env') \<and>
      res_trusted resp \<and> res_exp resp = 1000 + 259200 * 1000"
    using c by blast
next
  from test_creation obtain resp env' where
    c: "createExchange test_platform ''https://exchange.test'' test_request 1000 1001 test_entropy
          empty_env = (Json resp 201, env')"
    by blast
  have "\<not> res_trusted resp \<and> res_exp resp = 1000 + 3600 * 1000"
    using effective_expiry [OF c test_request_untrusted]
    by (auto simp: test_request_def untrusted_def)
  then show "\<exists>resp env'.
      createExchange test_platform ''https://exchange.test'' test_request 1000 1001 test_entropy
        empty_env = (Json resp 201, env') \<and>
      \<not> res_trusted resp \<and> res_exp resp = 1000 + 3600 * 1000"
    using c by blast
qed

section \<open>Retrieval without the passcode\<close>

text \<open>
  C8. Retrieving a passcode-protected exchange that has not expired and is not locked,
  with no passcode in the request, is answered 401 with \<open>authRequired\<close>, and the
  stores the handler returns are the stores it was given: the attempt counter is not
  incremented, and neither the record nor the payload is written or deleted.
\<close>

theorem auth_required_leaves_state_unchanged:
  assumes "loadMetadata (EXCHANGE_KV env) xid = Some m"
    and "passcodeHash m = Some stored" and "stored \<noteq> []"
    and "now \<le> exp m"
    and "attempts m < MAX_ATTEMPTS"
    and "ret_passcode body = None"
  shows "retrieveManifest P xid body now now_update env =
           (Json_error \<lparr>error = ''Passcode required'', remainingAttempts = None,
                        authRequired = Some True\<rparr> 401, env)"
proof -
  have h: "present (passcodeHash m) = Some stored"
    using assms(2,3) by (simp add: present_Some)
  have p: "present (ret_passcode body) = None"
    using assms(6) by (simp add: present_None)
  show ?thesis
    by (rule retrieve_auth_required [OF assms(1,4,5) h p])
qed

theorem auth_required_leaves_state_unchanged_witness:
  "retrieveManifest test_platform test_id no_passcode 2000 2001 test_env =
     (Json_error \<lparr>error = ''Passcode required'', remainingAttempts = None,
                  authRequired = Some True\<rparr> 401, test_env)"
proof (rule auth_required_leaves_state_unchanged [OF test_env_metadata])
  show "passcodeHash test_metadata = Some test_hash" by (simp add: test_metadata_def)
  show "test_hash \<noteq> []" by (rule test_hash_nonempty)
  show "2000 \<le> exp test_metadata" by (simp add: test_metadata_def)
  show "attempts test_metadata < MAX_ATTEMPTS" by (simp add: test_metadata_def MAX_ATTEMPTS_def)
  show "ret_passcode no_passcode = None" by (simp add: no_passcode_def)
qed

section \<open>Identifier of a created exchange\<close>



section \<open>The two versions of the credential guard\<close>



end
